theory Spec2Isabelle
  imports Main
begin

section \<open>Python strings\<close>

text \<open>
  Python's \<open>str\<close> is modelled by \<open>string\<close>; a character stands for a code point below 256.
  \<open>str.strip()\<close> removes the characters for which \<open>str.isspace\<close> holds from both ends:
  below 256 these are the code points 9 to 13, 28 to 32, 133 and 160.
\<close>

definition is_space :: "char \<Rightarrow> bool" where
  "is_space c =
     (let n = (of_char c :: nat)
      in (9 \<le> n \<and> n \<le> 13) \<or> (28 \<le> n \<and> n \<le> 32) \<or> n = 133 \<or> n = 160)"

definition lstrip :: "string \<Rightarrow> string" where
  "lstrip s = dropWhile is_space s"

definition rstrip :: "string \<Rightarrow> string" where
  "rstrip s = rev (dropWhile is_space (rev s))"

definition strip :: "string \<Rightarrow> string" where
  "strip s = rstrip (lstrip s)"

text \<open>\<open>sep.join(parts)\<close>.\<close>

fun join :: "string \<Rightarrow> string list \<Rightarrow> string" where
  "join sep [] = []"
| "join sep [p] = p"
| "join sep (p # q # ps) = p @ sep @ join sep (q # ps)"

text \<open>\<open>str(n)\<close> for an integer: decimal digits, with a minus sign below zero.\<close>

definition digit_char :: "nat \<Rightarrow> char" where
  "digit_char d = ''0123456789'' ! d"

function str_nat :: "nat \<Rightarrow> string" where
  "str_nat n = (if n < 10 then [digit_char n] else str_nat (n div 10) @ [digit_char (n mod 10)])"
  by pat_completeness auto
termination
  by (relation "measure (\<lambda>n. n)") auto

declare str_nat.simps [simp del]

definition str_int :: "int \<Rightarrow> string" where
  "str_int i = (if i < 0 then CHR ''-'' # str_nat (nat (- i)) else str_nat (nat i))"

section \<open>Retrieved documents and citations\<close>

text \<open>
  The metadata dictionary written by \<open>process_document\<close> has the keys \<open>document\<close>,
  \<open>page\<close>, \<open>chunk_id\<close> and \<open>source_type\<close>. The handler reads \<open>page\<close> with
  \<open>.get('page', 'N/A')\<close> in one place and with \<open>metadata['page']\<close> in another, so the
  key is optional in the model and the second read can raise \<open>KeyError\<close>.
\<close>

datatype error =
    KeyError string
  | ValueError string
  | IndexError
  | InconsistentHashError
  | Exception string

record chunk_meta =
  document :: string
  page :: "int option"
  chunk_id :: string
  source_type :: string

text \<open>
  A chunk is the dictionary with the keys \<open>text\<close> and \<open>metadata\<close> that
  \<open>process_document\<close> builds; a search result is such a dictionary with the further key
  \<open>distance\<close>. The handler reads \<open>text\<close> and \<open>metadata\<close> only, so its functions take
  any extension of a chunk.
\<close>

record chunk =
  doc_text :: string
  metadata :: chunk_meta

record 'd search_result = chunk +
  distance :: 'd

text \<open>A value that is an integer or a string: the \<open>page\<close> entry of a citation.\<close>

datatype pyval = IntVal int | StrVal string

record source =
  src_document :: string
  src_page :: pyval
  src_text :: string

section \<open>The generation worker boundary (llm\_handler.py)\<close>

text \<open>
  The worker script (ollama\_worker.py) prints one JSON object, \<open>{"ok": true, "answer": s}\<close>,
  \<open>{"ok": true}\<close> or \<open>{"ok": false, "error": s}\<close>, where \<open>s\<close> is a string.
  \<open>payload\<close> holds what the handler reads from the decoded object: the truth value of
  \<open>get("ok")\<close>, and the \<open>answer\<close> and \<open>error\<close> entries, which are strings as the worker
  prints them and \<open>None\<close> when the key is missing.

  \<open>run_result\<close> is the outcome of one \<open>subprocess.run\<close>: it raised (timeout, launch
  failure; the string is \<open>str(e)\<close>), or it completed with the captured \<open>stdout\<close> and
  \<open>stderr\<close>. \<open>decoded\<close> is the value of \<open>json.loads(stdout.strip())\<close> as the handler
  sees it: \<open>None\<close> when decoding raises or the decoded value has no \<open>.get\<close>, both of
  which end in the same \<open>except Exception\<close> branch.
\<close>

datatype payload = Payload (p_ok: bool) (p_answer: "string option") (p_error: "string option")

datatype run_result =
    Raised string
  | Completed (stdout: string) (stderr: string) (decoded: "payload option")

text \<open>One launch of the worker script, by the interpreter it is launched with and its arguments.\<close>

datatype invocation =
    Probe string
  | Request (req_python: string) (req_model: string) (req_mode: string) (req_system: string)
      (req_user: string) (req_temperature: string) (req_num_predict: string)

record LLMHandler =
  model :: string
  ollama_error_message :: string
  ollama_python :: string
  ollama_available :: bool

definition not_configured_message :: string where
  "not_configured_message =
     ''Secondary venv Python not configured. Set OLLAMA_PY to the python.exe '' @
     ''of the Ollama venv (e.g., C:'' @ [CHR 0x5C] @ ''GIT'' @ [CHR 0x5C] @ ''DocuMind'' @
     [CHR 0x5C] @ ''.venv_ollama'' @ [CHR 0x5C] @ ''Scripts'' @ [CHR 0x5C] @ ''python.exe).''"

text \<open>
  \<open>LLMHandler.__init__\<close>. \<open>path\<close> is the constructor argument, \<open>env\<close> the value of the
  environment variable \<open>OLLAMA_PY\<close>, \<open>r\<close> the outcome of the \<open>--check\<close> run if it is made.
  The result is the handler and the worker launches made.
\<close>

definition check_message :: "run_result \<Rightarrow> bool \<times> string" where
  "check_message r =
     (case r of
        Raised e \<Rightarrow> (False, ''Failed to execute Ollama worker: '' @ e)
      | Completed out err dec \<Rightarrow>
          (let (ok, msg) =
                 (if out \<noteq> [] then
                    (case dec of
                       Some data \<Rightarrow>
                         (if p_ok data then (True, [])
                          else (False, (case p_error data of Some e \<Rightarrow> e | None \<Rightarrow> ''Unknown error'')))
                     | None \<Rightarrow> (False, strip out))
                  else (False, []));
               msg = (if err \<noteq> [] \<and> \<not> ok then strip (msg @ ''\<newline>'' @ strip err) else msg);
               msg = (if \<not> ok \<and> msg = [] then ''Ollama worker check failed.'' else msg)
           in (ok, msg)))"

definition init :: "string \<Rightarrow> string option \<Rightarrow> string option \<Rightarrow> run_result \<Rightarrow> LLMHandler \<times> invocation list" where
  "init mdl path env r =
     (let py = (case path of
                  Some p \<Rightarrow> (if p \<noteq> [] then p else (case env of Some e \<Rightarrow> e | None \<Rightarrow> []))
                | None \<Rightarrow> (case env of Some e \<Rightarrow> e | None \<Rightarrow> []))
      in if py \<noteq> [] then
           (let (ok, msg) = check_message r
            in (\<lparr>model = mdl, ollama_error_message = msg, ollama_python = py, ollama_available = ok\<rparr>,
                [Probe py]))
         else
           (\<lparr>model = mdl, ollama_error_message = not_configured_message, ollama_python = py,
             ollama_available = False\<rparr>, []))"

text \<open>\<open>create_context\<close>: the loop over \<open>enumerate(relevant_docs, 1)\<close>.\<close>

fun context_parts :: "nat \<Rightarrow> 'a chunk_scheme list \<Rightarrow> error + string list" where
  "context_parts i [] = Inr []"
| "context_parts i (d # ds) =
     (case page (metadata d) of
        None \<Rightarrow> Inl (KeyError ''page'')
      | Some p \<Rightarrow>
          (case context_parts (Suc i) ds of
             Inl e \<Rightarrow> Inl e
           | Inr rest \<Rightarrow>
               Inr ((''\<newline>Source '' @ str_nat i @ '' (Document: '' @ document (metadata d) @
                     '', Page: '' @ str_int p @ ''):\<newline>'' @ doc_text d @ ''\<newline>'') # rest)))"

definition create_context :: "'a chunk_scheme list \<Rightarrow> error + string" where
  "create_context relevant_docs =
     (case context_parts 1 relevant_docs of
        Inl e \<Rightarrow> Inl e
      | Inr parts \<Rightarrow> Inr (join ''\<newline>'' parts))"

definition system_prompt :: string where
  "system_prompt =
     ''You are an intelligent document assistant. Your task is to answer questions based ONLY on the provided context from documents.\<newline>'' @
     ''\<newline>'' @
     ''Guidelines:\<newline>'' @
     ''1. Answer the question using only the information from the provided sources\<newline>'' @
     ''2. Be concise and accurate\<newline>'' @
     ''3. If the context doesn'' @ [CHR 0x27] @ ''t contain relevant information, say so\<newline>'' @
     ''4. Reference specific sources when making claims (e.g., '' @ [CHR 0x22] @
     ''According to Source 1...'' @ [CHR 0x22] @ '')\<newline>'' @
     ''5. Maintain a professional and helpful tone\<newline>'' @
     ''6. Do not make up information or use knowledge outside the provided context\<newline>''"

definition user_prompt :: "string \<Rightarrow> string \<Rightarrow> string" where
  "user_prompt context query =
     ''Context from documents:\<newline>'' @ context @ ''\<newline>\<newline>Question: '' @ query @
     ''\<newline>\<newline>Please provide a comprehensive answer based on the context above. Reference the sources you use.''"

text \<open>The citation loop, the same in both branches of \<open>generate_answer\<close>.\<close>

fun format_sources :: "'a chunk_scheme list \<Rightarrow> source list" where
  "format_sources [] = []"
| "format_sources (d # ds) =
     \<lparr>src_document = document (metadata d),
      src_page = (case page (metadata d) of Some p \<Rightarrow> IntVal p | None \<Rightarrow> StrVal ''N/A''),
      src_text = doc_text d\<rparr> # format_sources ds"

text \<open>The body of the \<open>try\<close> block of \<open>generate_answer\<close> and its \<open>except\<close> clause.\<close>

definition live_answer :: "run_result \<Rightarrow> string" where
  "live_answer r =
     (case r of
        Raised e \<Rightarrow>
          ''Error generating response: '' @ e @
          ''\<newline>Please ensure the Ollama worker venv is configured.''
      | Completed out err dec \<Rightarrow>
          (let answer =
                 (if out \<noteq> [] then
                    (case dec of
                       Some p \<Rightarrow>
                         (if p_ok p then (case p_answer p of Some a \<Rightarrow> a | None \<Rightarrow> [])
                          else ''Error generating response: '' @
                               (case p_error p of Some e \<Rightarrow> e | None \<Rightarrow> ''Unknown error''))
                     | None \<Rightarrow> strip out)
                  else []);
               answer = (if answer = [] \<and> err \<noteq> [] then ''Error generating response: '' @ strip err
                         else answer);
               answer = (if answer = [] then ''No response from Ollama worker.'' else answer)
           in answer))"

text \<open>
  \<open>generate_answer\<close>. The method is a state transformer on the handler: it returns the
  answer with the citations, the handler as the call leaves it, and the worker launches
  it made. \<open>r\<close> is the outcome of the worker run if one is made.
\<close>

definition generate_answer ::
  "LLMHandler \<Rightarrow> string \<Rightarrow> 'a chunk_scheme list \<Rightarrow> run_result \<Rightarrow>
   error + ((string \<times> source list) \<times> LLMHandler \<times> invocation list)" where
  "generate_answer h query relevant_docs r =
     (if \<not> ollama_available h then
        Inr ((''LLM is unavailable. '' @ ollama_error_message h, format_sources relevant_docs), h, [])
      else
        (case create_context relevant_docs of
           Inl e \<Rightarrow> Inl e
         | Inr context \<Rightarrow>
             Inr ((live_answer r, format_sources relevant_docs), h,
                  [Request (ollama_python h) (model h) ''chat'' system_prompt
                     (user_prompt context query) ''0.7'' ''500''])))"

text \<open>\<open>generate_summary\<close>: every branch returns a string.\<close>

definition summary_answer :: "run_result \<Rightarrow> string" where
  "summary_answer r =
     (case r of
        Raised e \<Rightarrow>
          ''Error generating summary: '' @ e @
          ''\<newline>Please ensure the Ollama worker venv is configured.''
      | Completed out err dec \<Rightarrow>
          (if out \<noteq> [] then
             (case dec of
                Some p \<Rightarrow>
                  (if p_ok p then (case p_answer p of Some a \<Rightarrow> a | None \<Rightarrow> [])
                   else ''Error generating summary: '' @
                        (case p_error p of Some e \<Rightarrow> e | None \<Rightarrow> ''Unknown error''))
              | None \<Rightarrow> strip out)
           else if err \<noteq> [] then ''Error generating summary: '' @ strip err
           else ''No response from Ollama worker.''))"

definition generate_summary ::
  "LLMHandler \<Rightarrow> string \<Rightarrow> run_result \<Rightarrow> string \<times> LLMHandler \<times> invocation list" where
  "generate_summary h txt r =
     (if \<not> ollama_available h then (''LLM is unavailable. '' @ ollama_error_message h, h, [])
      else
        (summary_answer r, h,
         [Request (ollama_python h) (model h) ''summary''
            ''You are a helpful assistant that creates concise summaries.''
            (''Please provide a concise summary of the following text:\<newline>\<newline>'' @ txt)
            ''0.5'' ''200'']))"

text \<open>
  A sequence of calls on one handler: each call takes the handler the previous one left.
  A call that raises leaves the handler as it found it and has launched nothing
  (\<open>create_context\<close> runs before the worker is launched).
\<close>

datatype 'a call =
    GenerateAnswer string "'a chunk_scheme list" run_result
  | GenerateSummary string run_result

datatype call_result =
    AnswerResult string "source list"
  | SummaryResult string
  | RaisedError error

fun result_text :: "call_result \<Rightarrow> string option" where
  "result_text (AnswerResult a srcs) = Some a"
| "result_text (SummaryResult a) = Some a"
| "result_text (RaisedError e) = None"

fun run_call :: "LLMHandler \<Rightarrow> 'a call \<Rightarrow> call_result \<times> LLMHandler \<times> invocation list" where
  "run_call h (GenerateAnswer query docs r) =
     (case generate_answer h query docs r of
        Inl e \<Rightarrow> (RaisedError e, h, [])
      | Inr ((a, srcs), h', tr) \<Rightarrow> (AnswerResult a srcs, h', tr))"
| "run_call h (GenerateSummary txt r) =
     (case generate_summary h txt r of (a, h', tr) \<Rightarrow> (SummaryResult a, h', tr))"

fun run_calls :: "LLMHandler \<Rightarrow> 'a call list \<Rightarrow> call_result list \<times> LLMHandler \<times> invocation list" where
  "run_calls h [] = ([], h, [])"
| "run_calls h (c # cs) =
     (case run_call h c of
        (out, h', tr) \<Rightarrow>
          (case run_calls h' cs of (outs, h'', tr') \<Rightarrow> (out # outs, h'', tr @ tr')))"

fun is_probe :: "invocation \<Rightarrow> bool" where
  "is_probe (Probe py) = True"
| "is_probe (Request py m md sy us te nu) = False"

section \<open>The chat query step (app.py)\<close>

record chat_message =
  role :: string
  content :: string
  msg_sources :: "source list option"

definition no_information_response :: string where
  "no_information_response =
     ''I couldn'' @ [CHR 0x27] @
     ''t find relevant information in the documents to answer your question.''"

text \<open>
  The handling of one query. \<open>relevant_docs\<close> is what \<open>search_similar(query, k=4)\<close>
  returned. The result is the chat history, the handler, the worker launches and the list
  of \<open>generate_answer\<close> calls made, each by its arguments.
\<close>

definition handle_query ::
  "LLMHandler \<Rightarrow> chat_message list \<Rightarrow> string \<Rightarrow> 'a chunk_scheme list \<Rightarrow> run_result \<Rightarrow>
   error + (chat_message list \<times> LLMHandler \<times> invocation list \<times> (string \<times> 'a chunk_scheme list) list)" where
  "handle_query h chat_history query relevant_docs r =
     (let chat_history = chat_history @ [\<lparr>role = ''user'', content = query, msg_sources = None\<rparr>]
      in if relevant_docs \<noteq> [] then
           (case generate_answer h query relevant_docs r of
              Inl e \<Rightarrow> Inl e
            | Inr ((answer, sources), h', tr) \<Rightarrow>
                Inr (chat_history @
                       [\<lparr>role = ''assistant'', content = answer, msg_sources = Some sources\<rparr>],
                     h', tr, [(query, relevant_docs)]))
         else
           Inr (chat_history @
                  [\<lparr>role = ''assistant'', content = no_information_response,
                    msg_sources = Some []\<rparr>],
                h, [], []))"

section \<open>Document processing (document\_processor.py)\<close>

text \<open>
  The separators handed to the text splitter by \<open>DocumentProcessor.__init__\<close>. In the source
  they are written with doubled backslashes inside ordinary string literals, so the first is
  the four characters backslash, n, backslash, n and the second the two characters
  backslash, n.
\<close>

record DocumentProcessor =
  chunk_size :: nat
  chunk_overlap :: nat
  separators :: "string list"

definition backslash :: char where
  "backslash = CHR 0x5C"

definition DocumentProcessor_init :: "nat \<Rightarrow> nat \<Rightarrow> DocumentProcessor" where
  "DocumentProcessor_init csize coverlap =
     \<lparr>chunk_size = csize, chunk_overlap = coverlap,
      separators =
        [[backslash, CHR ''n'', backslash, CHR ''n''], [backslash, CHR ''n''], '' '', []]\<rparr>"

text \<open>\<open>sep in s\<close>: the string \<open>sep\<close> occurs in \<open>s\<close> as a run of consecutive characters.\<close>

fun starts_with :: "string \<Rightarrow> string \<Rightarrow> bool" where
  "starts_with [] s = True"
| "starts_with (c # cs) [] = False"
| "starts_with (c # cs) (d # ds) = (c = d \<and> starts_with cs ds)"

fun occurs_in :: "string \<Rightarrow> string \<Rightarrow> bool" where
  "occurs_in sep [] = (sep = [])"
| "occurs_in sep (c # cs) = (starts_with sep (c # cs) \<or> occurs_in sep cs)"

text \<open>
  \<open>os.path.splitext(filename)[1]\<close> with the POSIX separator: the extension starts at the last
  dot of the last path component, unless only dots stand before it in that component.
\<close>

definition splitext_ext :: "string \<Rightarrow> string" where
  "splitext_ext p =
     (let name = rev (takeWhile (\<lambda>c. c \<noteq> CHR ''/'') (rev p));
          ext = rev (takeWhile (\<lambda>c. c \<noteq> CHR ''.'') (rev name));
          stem = take (length name - length ext - 1) name
      in if CHR ''.'' \<in> set name \<and> filter (\<lambda>c. c \<noteq> CHR ''.'') stem \<noteq> []
         then CHR ''.'' # ext else [])"

text \<open>\<open>str.lower()\<close> on code points below 256.\<close>

definition lower_char :: "char \<Rightarrow> char" where
  "lower_char c =
     (let n = (of_char c :: nat)
      in if (65 \<le> n \<and> n \<le> 90) \<or> (192 \<le> n \<and> n \<le> 222 \<and> n \<noteq> 215)
         then char_of (n + 32) else c)"

definition lower :: "string \<Rightarrow> string" where
  "lower s = map lower_char s"

record page_data =
  pd_text :: string
  pd_page :: int
  total_pages :: nat

text \<open>
  What the readers give for the file at \<open>file_path\<close>: the page texts of the PDF reader, the
  paragraph texts of the DOCX reader, the content read as UTF-8 text; \<open>Inl\<close> holds the text
  of the exception when the reader raises.
\<close>

record file_readers =
  pdf_pages_text :: "string + string list"
  docx_paragraphs :: "string + string list"
  txt_content :: "string + string"

text \<open>\<open>extract_text_from_pdf\<close>: the loop over \<open>enumerate(reader.pages, start=1)\<close>.\<close>

fun pdf_pages :: "nat \<Rightarrow> nat \<Rightarrow> string list \<Rightarrow> page_data list" where
  "pdf_pages page_num n_pages [] = []"
| "pdf_pages page_num n_pages (t # ts) =
     (if strip t \<noteq> []
      then \<lparr>pd_text = t, pd_page = int page_num, total_pages = n_pages\<rparr> #
           pdf_pages (Suc page_num) n_pages ts
      else pdf_pages (Suc page_num) n_pages ts)"

definition extract_text_from_pdf :: "file_readers \<Rightarrow> error + page_data list" where
  "extract_text_from_pdf f =
     (case pdf_pages_text f of
        Inl e \<Rightarrow> Inl (Exception (''Error reading PDF: '' @ e))
      | Inr pages \<Rightarrow> Inr (pdf_pages 1 (length pages) pages))"

definition extract_text_from_docx :: "file_readers \<Rightarrow> error + page_data list" where
  "extract_text_from_docx f =
     (case docx_paragraphs f of
        Inl e \<Rightarrow> Inl (Exception (''Error reading DOCX: '' @ e))
      | Inr paragraphs \<Rightarrow>
          Inr [\<lparr>pd_text = join [backslash, CHR ''n''] (filter (\<lambda>p. strip p \<noteq> []) paragraphs),
                pd_page = 1, total_pages = 1\<rparr>])"

definition extract_text_from_txt :: "file_readers \<Rightarrow> error + page_data list" where
  "extract_text_from_txt f =
     (case txt_content f of
        Inl e \<Rightarrow> Inl (Exception (''Error reading TXT: '' @ e))
      | Inr t \<Rightarrow> Inr [\<lparr>pd_text = t, pd_page = 1, total_pages = 1\<rparr>])"

definition extract_pages :: "string \<Rightarrow> file_readers \<Rightarrow> error + page_data list" where
  "extract_pages file_ext f =
     (if file_ext = ''.pdf'' then extract_text_from_pdf f
      else if file_ext = ''.docx'' then extract_text_from_docx f
      else if file_ext = ''.txt'' then extract_text_from_txt f
      else Inl (ValueError (''Unsupported file type: '' @ file_ext)))"

text \<open>The chunk built for the text \<open>c\<close> with index \<open>chunk_idx\<close> on page \<open>page_num\<close>.\<close>

definition make_chunk :: "string \<Rightarrow> string \<Rightarrow> int \<Rightarrow> nat \<Rightarrow> string \<Rightarrow> chunk" where
  "make_chunk filename file_ext page_num chunk_idx c =
     \<lparr>doc_text = c,
      metadata =
        \<lparr>document = filename, page = Some page_num,
         chunk_id = filename @ ''_page'' @ str_int page_num @ ''_chunk'' @ str_nat chunk_idx,
         source_type = drop 1 file_ext\<rparr>\<rparr>"

text \<open>The inner loop over \<open>enumerate(text_chunks)\<close> and the outer loop over \<open>pages_data\<close>.\<close>

fun page_chunks :: "string \<Rightarrow> string \<Rightarrow> int \<Rightarrow> nat \<Rightarrow> string list \<Rightarrow> chunk list" where
  "page_chunks filename file_ext page_num chunk_idx [] = []"
| "page_chunks filename file_ext page_num chunk_idx (c # cs) =
     make_chunk filename file_ext page_num chunk_idx c #
     page_chunks filename file_ext page_num (Suc chunk_idx) cs"

fun all_chunks ::
  "(string \<Rightarrow> string list) \<Rightarrow> string \<Rightarrow> string \<Rightarrow> page_data list \<Rightarrow> chunk list" where
  "all_chunks split_text filename file_ext [] = []"
| "all_chunks split_text filename file_ext (pd # pds) =
     page_chunks filename file_ext (pd_page pd) 0 (split_text (pd_text pd)) @
     all_chunks split_text filename file_ext pds"

text \<open>
  \<open>process_document\<close>. \<open>split_text\<close> is the configured splitter's \<open>split_text\<close> method
  (library code), \<open>f\<close> what the readers give for the file.
\<close>

definition process_document ::
  "(string \<Rightarrow> string list) \<Rightarrow> file_readers \<Rightarrow> string \<Rightarrow> error + chunk list" where
  "process_document split_text f filename =
     (let file_ext = lower (splitext_ext filename)
      in case extract_pages file_ext f of
           Inl e \<Rightarrow> Inl e
         | Inr pages_data \<Rightarrow> Inr (all_chunks split_text filename file_ext pages_data))"

section \<open>The vector store (vector\_store.py)\<close>

subsection \<open>Opening the persistent client\<close>

text \<open>
  \<open>VectorStoreManager.__init__\<close> opens the client with up to three calls of
  \<open>chromadb.PersistentClient\<close>. What each call does is the library's and the disk's affair,
  so the outcome of each call is an input: it opens, it raises \<open>InconsistentHashError\<close>, or
  it raises another exception (the string is its text). \<open>makedirs_error\<close> is the text of the
  exception of \<open>os.makedirs(fresh_path, exist_ok=True)\<close>, if it raises.
  \<open>shutil.rmtree(db_path, ignore_errors=True)\<close> stands inside \<open>try ... except Exception: pass\<close>
  and never raises.
\<close>

datatype attempt = Opens | FailsInconsistentHash | Fails string

record startup =
  first_open :: attempt
  second_open :: attempt
  makedirs_error :: "string option"
  third_open :: attempt

datatype fs_action = Rmtree string | Makedirs string

definition db_path :: string where
  "db_path = ''./chroma_db''"

definition fresh_path :: "int \<Rightarrow> string" where
  "fresh_path now = ''./chroma_db_'' @ str_int now"

text \<open>
  The last resort, written twice in the source: make the directory with the time stamp and
  open a client there. Nothing catches what these two calls raise.
\<close>

definition open_fresh :: "startup \<Rightarrow> int \<Rightarrow> error + string \<times> fs_action list" where
  "open_fresh w now =
     (case makedirs_error w of
        Some e \<Rightarrow> Inl (Exception e)
      | None \<Rightarrow>
          (case third_open w of
             Opens \<Rightarrow> Inr (fresh_path now, [Rmtree db_path, Makedirs (fresh_path now)])
           | FailsInconsistentHash \<Rightarrow> Inl InconsistentHashError
           | Fails e \<Rightarrow> Inl (Exception e)))"

text \<open>
  The \<open>try\<close> statement of lines 25 to 51. The result is the path of the client that was
  opened and the changes made to the disk, or the exception that leaves the constructor.
  \<open>now\<close> is \<open>int(time.time())\<close>. In the handler for \<open>InconsistentHashError\<close> the second
  call is guarded by \<open>except InconsistentHashError\<close> only; in the handler for other
  exceptions it is guarded by \<open>except Exception\<close>.
\<close>

definition open_client :: "startup \<Rightarrow> int \<Rightarrow> error + string \<times> fs_action list" where
  "open_client w now =
     (case first_open w of
        Opens \<Rightarrow> Inr (db_path, [])
      | FailsInconsistentHash \<Rightarrow>
          (case second_open w of
             Opens \<Rightarrow> Inr (db_path, [Rmtree db_path])
           | FailsInconsistentHash \<Rightarrow> open_fresh w now
           | Fails e \<Rightarrow> Inl (Exception e))
      | Fails e \<Rightarrow>
          (case second_open w of
             Opens \<Rightarrow> Inr (db_path, [Rmtree db_path])
           | FailsInconsistentHash \<Rightarrow> open_fresh w now
           | Fails e' \<Rightarrow> open_fresh w now))"

subsection \<open>The collection\<close>

record 'v entry =
  entry_id :: string
  embedding :: 'v
  entry_document :: string
  entry_metadata :: chunk_meta




text \<open>
  Modelled from the spec: \<open>collection.query(query_embeddings, n_results, include)\<close> of the
  library. The spec says: "\<open>query(vector, k)\<close> -> ordered sequence of SearchResult sorted by
  ascending distance" and "\<open>query\<close> with an index of fewer than k entries returns all
  available entries, never errors". The result has one list per query embedding under each
  of the keys \<open>documents\<close>, \<open>metadatas\<close> and \<open>distances\<close>. \<open>dist\<close> is the distance of the
  index's metric.
\<close>

record 'd query_result =
  documents :: "string list list"
  metadatas :: "chunk_meta list list"
  distances :: "'d list list"

text \<open>
  Modelled from the spec: the entries a query returns for one query vector, the \<open>k\<close>
  nearest in ascending order of distance, all of them when there are fewer than \<open>k\<close>.
\<close>

definition nearest :: "('v \<Rightarrow> 'v \<Rightarrow> 'd::linorder) \<Rightarrow> 'v entry list \<Rightarrow> 'v \<Rightarrow> nat \<Rightarrow> 'v entry list" where
  "nearest dist coll q k = take k (sort_key (\<lambda>e. dist q (embedding e)) coll)"

text \<open>
  Modelled from the spec: the result dictionary of \<open>collection.query\<close>, one list of
  documents, metadata and distances for each query embedding.
\<close>

definition collection_query ::
  "('v \<Rightarrow> 'v \<Rightarrow> 'd::linorder) \<Rightarrow> 'v entry list \<Rightarrow> 'v list \<Rightarrow> nat \<Rightarrow> 'd query_result" where
  "collection_query dist coll query_embeddings n_results =
     \<lparr>documents = map (\<lambda>q. map entry_document (nearest dist coll q n_results)) query_embeddings,
      metadatas = map (\<lambda>q. map entry_metadata (nearest dist coll q n_results)) query_embeddings,
      distances =
        map (\<lambda>q. map (\<lambda>e. dist q (embedding e)) (nearest dist coll q n_results)) query_embeddings\<rparr>"

subsection \<open>The manager's methods\<close>

record 'v VectorStoreManager =
  collection_name :: string
  collection :: "'v entry list"

text \<open>
  \<open>generate_embeddings\<close>: \<open>encode\<close> is the embedding model's \<open>encode\<close>, applied to each text.
\<close>

definition generate_embeddings :: "(string \<Rightarrow> 'v) \<Rightarrow> string list \<Rightarrow> 'v list" where
  "generate_embeddings encode texts = map encode texts"




text \<open>
  The formatting loop of \<open>search_similar\<close>: row \<open>i\<close> takes \<open>documents[0][i]\<close>,
  \<open>metadatas[0][i]\<close> and \<open>distances[0][i]\<close>; a list that is too short raises \<open>IndexError\<close>.
\<close>

fun format_rows :: "string list \<Rightarrow> chunk_meta list \<Rightarrow> 'd list \<Rightarrow> error + 'd search_result list" where
  "format_rows [] ms ds = Inr []"
| "format_rows (t # ts) [] ds = Inl IndexError"
| "format_rows (t # ts) (m # ms) [] = Inl IndexError"
| "format_rows (t # ts) (m # ms) (d # ds) =
     (case format_rows ts ms ds of
        Inl e \<Rightarrow> Inl e
      | Inr rest \<Rightarrow> Inr (\<lparr>doc_text = t, metadata = m, distance = d\<rparr> # rest))"

definition format_results :: "'d query_result \<Rightarrow> error + 'd search_result list" where
  "format_results results =
     (case documents results of
        [] \<Rightarrow> Inr []
      | docs0 # _ \<Rightarrow>
          if docs0 = [] then Inr []
          else (case metadatas results of
                  [] \<Rightarrow> Inl IndexError
                | metas0 # _ \<Rightarrow>
                    (case distances results of
                       [] \<Rightarrow> Inl IndexError
                     | dists0 # _ \<Rightarrow> format_rows docs0 metas0 dists0)))"

definition search_similar ::
  "(string \<Rightarrow> 'v) \<Rightarrow> ('v \<Rightarrow> 'v \<Rightarrow> 'd::linorder) \<Rightarrow> 'v VectorStoreManager \<Rightarrow> string \<Rightarrow> nat \<Rightarrow>
   error + 'd search_result list" where
  "search_similar encode dist vs query k =
     (case generate_embeddings encode [query] of
        [] \<Rightarrow> Inl IndexError
      | query_embedding # _ \<Rightarrow>
          format_results (collection_query dist (collection vs) [query_embedding] k))"

section \<open>Unavailable worker\<close>

lemma length_format_sources: "length (format_sources ds) = length ds"
  by (induction ds) simp_all

lemma nth_format_sources:
  "i < length ds \<Longrightarrow>
   format_sources ds ! i =
     \<lparr>src_document = document (metadata (ds ! i)),
      src_page = (case page (metadata (ds ! i)) of Some p \<Rightarrow> IntVal p | None \<Rightarrow> StrVal ''N/A''),
      src_text = doc_text (ds ! i)\<rparr>"
proof (induction ds arbitrary: i)
  case Nil
  then show ?case by simp
next
  case (Cons d ds)
  show ?case
  proof (cases i)
    case 0
    then show ?thesis by simp
  next
    case (Suc j)
    with Cons.prems have "j < length ds" by simp
    with Cons.IH Suc show ?thesis by simp
  qed
qed

text \<open>
  C3, as the code has it. With a handler that is not available, \<open>generate_answer\<close> and
  \<open>generate_summary\<close> return, for every query, text and list of retrieved documents, the
  string made of the fixed prefix \<open>LLM is unavailable. \<close> (a full stop and a space, where
  the claim has a colon) followed by the recorded reason; neither call raises.
\<close>

theorem unavailable_generate_returns_reason:
  assumes "\<not> ollama_available h"
  shows "(\<exists>srcs h' tr. generate_answer h query docs r =
            Inr ((''LLM is unavailable. '' @ ollama_error_message h, srcs), h', tr)) \<and>
         fst (generate_summary h txt r) = ''LLM is unavailable. '' @ ollama_error_message h"
  using assms by (simp add: generate_answer_def generate_summary_def)

theorem unavailable_generate_returns_reason_witness:
  "\<not> ollama_available (fst (init ''llama3.1:8b'' None (Some ''python'') (Raised ''timed out''))) \<and>
   (\<exists>srcs h' tr.
      generate_answer (fst (init ''llama3.1:8b'' None (Some ''python'') (Raised ''timed out'')))
        ''What is DocuMind?'' [] (Raised ''unused'') =
      Inr ((''LLM is unavailable. Failed to execute Ollama worker: timed out'', srcs), h', tr)) \<and>
   fst (generate_summary (fst (init ''llama3.1:8b'' None (Some ''python'') (Raised ''timed out'')))
          ''some text'' (Raised ''unused'')) =
     ''LLM is unavailable. Failed to execute Ollama worker: timed out''"
proof -
  let ?h = "fst (init ''llama3.1:8b'' None (Some ''python'') (Raised ''timed out''))"
  have un: "\<not> ollama_available ?h"
    by (simp add: init_def check_message_def Let_def)
  have msg: "ollama_error_message ?h = ''Failed to execute Ollama worker: timed out''"
    by (simp add: init_def check_message_def Let_def)
  from unavailable_generate_returns_reason [OF un, of "''What is DocuMind?''" "[]"
      "Raised ''unused''" "''some text''"] un msg
  show ?thesis by simp
qed

text \<open>
  The form with a colon is not what is returned: a handler built with an interpreter whose
  check run times out answers with a full stop after \<open>unavailable\<close>, so the answer is not
  the string \<open>LLM is unavailable: <reason>\<close>.
\<close>

theorem unavailable_colon_counterexample:
  "fst (generate_summary (fst (init ''llama3.1:8b'' None (Some ''python'') (Raised ''timed out'')))
          ''some text'' (Raised ''unused''))
     \<noteq> ''LLM is unavailable: Failed to execute Ollama worker: timed out'' \<and>
   generate_answer (fst (init ''llama3.1:8b'' None (Some ''python'') (Raised ''timed out'')))
       ''What is DocuMind?'' [] (Raised ''unused'') =
     Inr ((''LLM is unavailable. Failed to execute Ollama worker: timed out'', []),
          fst (init ''llama3.1:8b'' None (Some ''python'') (Raised ''timed out'')), [])"
  by (simp add: generate_summary_def generate_answer_def init_def check_message_def Let_def)

text \<open>
  C10. With a handler that is not available, \<open>generate_answer\<close> still returns the whole
  citation list: one record per retrieved document, in retrieval order, holding its document
  name, its page (the string \<open>N/A\<close> when the metadata has no page) and its text; the handler
  is unchanged and the worker is not launched.
\<close>

theorem unavailable_generate_answer_sources:
  assumes "\<not> ollama_available h"
  shows "\<exists>answer srcs.
           generate_answer h query docs r = Inr ((answer, srcs), h, []) \<and>
           length srcs = length docs \<and>
           (\<forall>i < length docs.
              srcs ! i =
                \<lparr>src_document = document (metadata (docs ! i)),
                 src_page = (case page (metadata (docs ! i)) of
                               Some p \<Rightarrow> IntVal p | None \<Rightarrow> StrVal ''N/A''),
                 src_text = doc_text (docs ! i)\<rparr>)"
  using assms
  by (simp add: generate_answer_def length_format_sources nth_format_sources)

theorem unavailable_generate_answer_sources_witness:
  "\<not> ollama_available
       \<lparr>model = ''llama3.1:8b'', ollama_error_message = ''Ollama worker check failed.'',
        ollama_python = ''python'', ollama_available = False\<rparr> \<and>
   (\<exists>answer.
      generate_answer
        \<lparr>model = ''llama3.1:8b'', ollama_error_message = ''Ollama worker check failed.'',
         ollama_python = ''python'', ollama_available = False\<rparr>
        ''What is on page two?''
        [\<lparr>doc_text = ''first'',
          metadata = \<lparr>document = ''a.pdf'', page = Some 2, chunk_id = ''a.pdf_page2_chunk0'',
                      source_type = ''pdf''\<rparr>\<rparr>,
         \<lparr>doc_text = ''second'',
          metadata = \<lparr>document = ''b.txt'', page = None, chunk_id = ''b.txt_page1_chunk0'',
                      source_type = ''txt''\<rparr>\<rparr>]
        (Raised ''unused'') =
      Inr ((answer,
            [\<lparr>src_document = ''a.pdf'', src_page = IntVal 2, src_text = ''first''\<rparr>,
             \<lparr>src_document = ''b.txt'', src_page = StrVal ''N/A'', src_text = ''second''\<rparr>]),
           \<lparr>model = ''llama3.1:8b'', ollama_error_message = ''Ollama worker check failed.'',
            ollama_python = ''python'', ollama_available = False\<rparr>, []))"
proof -
  let ?h = "\<lparr>model = ''llama3.1:8b'', ollama_error_message = ''Ollama worker check failed.'',
             ollama_python = ''python'', ollama_available = False\<rparr>"
  let ?docs = "[\<lparr>doc_text = ''first'',
          metadata = \<lparr>document = ''a.pdf'', page = Some 2, chunk_id = ''a.pdf_page2_chunk0'',
                      source_type = ''pdf''\<rparr>\<rparr>,
         \<lparr>doc_text = ''second'',
          metadata = \<lparr>document = ''b.txt'', page = None, chunk_id = ''b.txt_page1_chunk0'',
                      source_type = ''txt''\<rparr>\<rparr>]"
  have un: "\<not> ollama_available ?h" by simp
  from unavailable_generate_answer_sources [OF un, of "''What is on page two?''" ?docs
      "Raised ''unused''"]
  obtain answer srcs where
    eq: "generate_answer ?h ''What is on page two?'' ?docs (Raised ''unused'') =
           Inr ((answer, srcs), ?h, [])"
    and len: "length srcs = length ?docs"
    and nth: "\<forall>i < length ?docs.
                srcs ! i =
                  \<lparr>src_document = document (metadata (?docs ! i)),
                   src_page = (case page (metadata (?docs ! i)) of
                                 Some p \<Rightarrow> IntVal p | None \<Rightarrow> StrVal ''N/A''),
                   src_text = doc_text (?docs ! i)\<rparr>"
    by blast
  from nth have n0: "srcs ! 0 = \<lparr>src_document = ''a.pdf'', src_page = IntVal 2, src_text = ''first''\<rparr>"
    by simp
  from nth have "srcs ! Suc 0 =
      \<lparr>src_document = document (metadata (?docs ! Suc 0)),
       src_page = (case page (metadata (?docs ! Suc 0)) of
                     Some p \<Rightarrow> IntVal p | None \<Rightarrow> StrVal ''N/A''),
       src_text = doc_text (?docs ! Suc 0)\<rparr>"
    by simp
  then have n1: "srcs ! Suc 0 =
      \<lparr>src_document = ''b.txt'', src_page = StrVal ''N/A'', src_text = ''second''\<rparr>"
    by simp
  from len have "length srcs = Suc (Suc 0)" by simp
  then obtain a b where ab: "srcs = [a, b]"
    by (cases srcs; cases "tl srcs") auto
  with n0 n1 have "srcs =
      [\<lparr>src_document = ''a.pdf'', src_page = IntVal 2, src_text = ''first''\<rparr>,
       \<lparr>src_document = ''b.txt'', src_page = StrVal ''N/A'', src_text = ''second''\<rparr>]"
    by simp
  with eq un show ?thesis by blast
qed

section \<open>Availability over the handler's lifetime\<close>

lemma run_call_frame:
  assumes "run_call h c = (out, h', tr)"
  shows "h' = h \<and> (\<forall>i \<in> set tr. \<not> is_probe i)"
proof (cases c)
  case (GenerateAnswer query docs r)
  with assms show ?thesis
    by (auto simp: generate_answer_def split: if_splits sum.splits)
next
  case (GenerateSummary body r)
  with assms show ?thesis
    by (auto simp: generate_summary_def split: if_splits)
qed

lemma run_call_unavailable:
  assumes "run_call h c = (out, h', tr)" and "\<not> ollama_available h"
  shows "tr = [] \<and> result_text out = Some (''LLM is unavailable. '' @ ollama_error_message h)"
proof (cases c)
  case (GenerateAnswer query docs r)
  with assms show ?thesis
    by (auto simp: generate_answer_def)
next
  case (GenerateSummary body r)
  with assms show ?thesis
    by (auto simp: generate_summary_def)
qed

lemma run_calls_frame:
  "run_calls h cs = (outs, h', tr) \<Longrightarrow> h' = h \<and> (\<forall>i \<in> set tr. \<not> is_probe i)"
proof (induction cs arbitrary: h outs h' tr)
  case Nil
  then show ?case by simp
next
  case (Cons c cs)
  obtain out h1 tr1 where c1: "run_call h c = (out, h1, tr1)"
    by (cases "run_call h c") auto
  obtain outs2 h2 tr2 where c2: "run_calls h1 cs = (outs2, h2, tr2)"
    by (cases "run_calls h1 cs") auto
  from run_call_frame [OF c1] have f1: "h1 = h" and p1: "\<forall>i \<in> set tr1. \<not> is_probe i"
    by simp_all
  from Cons.IH [OF c2] have f2: "h2 = h1" and p2: "\<forall>i \<in> set tr2. \<not> is_probe i"
    by simp_all
  from Cons.prems c1 c2 have "h' = h2" and "tr = tr1 @ tr2"
    by simp_all
  with f1 f2 p1 p2 show ?case by auto
qed

lemma run_calls_unavailable:
  "run_calls h cs = (outs, h', tr) \<Longrightarrow> \<not> ollama_available h \<Longrightarrow>
   tr = [] \<and>
   (\<forall>out \<in> set outs. result_text out = Some (''LLM is unavailable. '' @ ollama_error_message h))"
proof (induction cs arbitrary: outs h' tr)
  case Nil
  then show ?case by simp
next
  case (Cons c cs)
  obtain out h1 tr1 where c1: "run_call h c = (out, h1, tr1)"
    by (cases "run_call h c") auto
  obtain outs2 h2 tr2 where c2: "run_calls h1 cs = (outs2, h2, tr2)"
    by (cases "run_calls h1 cs") auto
  from run_call_frame [OF c1] have f1: "h1 = h" by simp
  from run_call_unavailable [OF c1 Cons.prems(2)]
  have u1: "tr1 = []"
    and t1: "result_text out = Some (''LLM is unavailable. '' @ ollama_error_message h)"
    by simp_all
  from Cons.IH [of outs2 h2 tr2] c2 f1 Cons.prems(2)
  have u2: "tr2 = []"
    and t2: "\<forall>out \<in> set outs2.
               result_text out = Some (''LLM is unavailable. '' @ ollama_error_message h)"
    by simp_all
  from Cons.prems(1) c1 c2 have "outs = out # outs2" and "tr = tr1 @ tr2"
    by simp_all
  with u1 u2 t1 t2 show ?case by simp
qed

lemma init_probes_once: "length (filter is_probe (snd (init mdl path env r))) \<le> 1"
  by (simp add: init_def Let_def split: prod.splits)

text \<open>
  C9. The constructor launches the check at most once. Whatever sequence of
  \<open>generate_answer\<close> and \<open>generate_summary\<close> calls follows, and whatever the worker does in
  them, the handler after the calls is the handler before them (so neither the availability
  flag nor the recorded reason changes) and none of the launches made is a check. A handler
  that is not available therefore stays so: it launches nothing, and every call that returns
  gives the stored reason.
\<close>

theorem availability_fixed_at_construction:
  "length (filter is_probe (snd (init mdl path env r0))) \<le> 1 \<and>
   fst (snd (run_calls h cs)) = h \<and>
   (\<forall>i \<in> set (snd (snd (run_calls h cs))). \<not> is_probe i) \<and>
   (\<not> ollama_available h \<longrightarrow>
      \<not> ollama_available (fst (snd (run_calls h cs))) \<and>
      snd (snd (run_calls h cs)) = [] \<and>
      (\<forall>out \<in> set (fst (run_calls h cs)).
         result_text out = Some (''LLM is unavailable. '' @ ollama_error_message h)))"
proof -
  obtain outs h' tr where rc: "run_calls h cs = (outs, h', tr)"
    by (cases "run_calls h cs") auto
  from run_calls_frame [OF rc] have fr: "h' = h" and np: "\<forall>i \<in> set tr. \<not> is_probe i"
    by simp_all
  have un: "\<not> ollama_available h \<longrightarrow>
      tr = [] \<and>
      (\<forall>out \<in> set outs. result_text out = Some (''LLM is unavailable. '' @ ollama_error_message h))"
    using run_calls_unavailable [OF rc] by blast
  from init_probes_once fr np un rc show ?thesis by simp
qed

theorem availability_fixed_at_construction_witness:
  "\<not> ollama_available (fst (init ''llama3.1:8b'' None None (Raised ''unused''))) \<and>
   snd (init ''llama3.1:8b'' None None (Raised ''unused'')) = [] \<and>
   fst (snd (run_calls (fst (init ''llama3.1:8b'' None None (Raised ''unused'')))
               [GenerateSummary ''some text'' (Completed ''late answer'' [] None),
                GenerateAnswer ''What is DocuMind?'' []
                  (Completed ''x'' [] (Some (Payload True (Some ''an answer'') None)))])) =
     fst (init ''llama3.1:8b'' None None (Raised ''unused'')) \<and>
   snd (snd (run_calls (fst (init ''llama3.1:8b'' None None (Raised ''unused'')))
               [GenerateSummary ''some text'' (Completed ''late answer'' [] None),
                GenerateAnswer ''What is DocuMind?'' []
                  (Completed ''x'' [] (Some (Payload True (Some ''an answer'') None)))])) = [] \<and>
   map result_text
     (fst (run_calls (fst (init ''llama3.1:8b'' None None (Raised ''unused'')))
             [GenerateSummary ''some text'' (Completed ''late answer'' [] None),
              GenerateAnswer ''What is DocuMind?'' []
                (Completed ''x'' [] (Some (Payload True (Some ''an answer'') None)))])) =
     [Some (''LLM is unavailable. '' @ not_configured_message),
      Some (''LLM is unavailable. '' @ not_configured_message)]"
proof -
  let ?h = "fst (init ''llama3.1:8b'' None None (Raised ''unused''))"
  let ?cs = "[GenerateSummary ''some text'' (Completed ''late answer'' [] None),
              GenerateAnswer ''What is DocuMind?'' []
                (Completed ''x'' [] (Some (Payload True (Some ''an answer'') None)))]"
  have h: "?h = \<lparr>model = ''llama3.1:8b'', ollama_error_message = not_configured_message,
                  ollama_python = [], ollama_available = False\<rparr>"
    by (simp add: init_def)
  have tr0: "snd (init ''llama3.1:8b'' None None (Raised ''unused'')) = []"
    by (simp add: init_def)
  have outs: "map result_text (fst (run_calls ?h ?cs)) =
      [Some (''LLM is unavailable. '' @ not_configured_message),
       Some (''LLM is unavailable. '' @ not_configured_message)]"
    unfolding h by (simp add: generate_answer_def generate_summary_def)
  from availability_fixed_at_construction [of "''llama3.1:8b''" None None "Raised ''unused''" ?h ?cs]
  have "fst (snd (run_calls ?h ?cs)) = ?h"
    and "\<not> ollama_available ?h \<longrightarrow> snd (snd (run_calls ?h ?cs)) = []"
    by blast+
  moreover have "\<not> ollama_available ?h" unfolding h by simp
  ultimately show ?thesis using tr0 outs by blast
qed

section \<open>A live generation attempt\<close>

lemma live_answer_nonempty: "live_answer r \<noteq> []"
  by (cases r) (simp_all add: live_answer_def Let_def)

lemma live_answer_undecodable:
  "out \<noteq> [] \<Longrightarrow> strip out \<noteq> [] \<Longrightarrow> live_answer (Completed out err None) = strip out"
  by (simp add: live_answer_def Let_def)

lemma live_answer_silent: "live_answer (Completed [] [] dec) = ''No response from Ollama worker.''"
  by (simp add: live_answer_def Let_def)

lemma live_answer_raised:
  "live_answer (Raised e) =
     ''Error generating response: '' @ e @
     ''\<newline>Please ensure the Ollama worker venv is configured.''"
  by (simp add: live_answer_def)

text \<open>
  C4, as the code has it. For an available handler whose context can be built (the worker
  is launched only after \<open>create_context\<close>), and for every outcome of the worker run,
  \<open>generate_answer\<close> returns: it does not raise, the answer is a non-empty string, the
  handler is unchanged and exactly one chat request was launched. When the output cannot be
  decoded, the answer is the output with the white space at both ends removed (not the
  output as it was printed), provided something remains; with no output on either stream the
  answer is the fixed message; a run that raised (timeout, launch failure) gives the error
  string built from the exception's text.
\<close>

theorem live_generation_returns_string:
  assumes "ollama_available h" and "create_context docs = Inr context"
  shows "\<exists>answer.
           generate_answer h query docs r =
             Inr ((answer, format_sources docs), h,
                  [Request (ollama_python h) (model h) ''chat'' system_prompt
                     (user_prompt context query) ''0.7'' ''500'']) \<and>
           answer \<noteq> [] \<and>
           (\<forall>out err. r = Completed out err None \<longrightarrow> out \<noteq> [] \<longrightarrow> strip out \<noteq> [] \<longrightarrow>
              answer = strip out) \<and>
           (\<forall>dec. r = Completed [] [] dec \<longrightarrow> answer = ''No response from Ollama worker.'') \<and>
           (\<forall>e. r = Raised e \<longrightarrow>
              answer = ''Error generating response: '' @ e @
                       ''\<newline>Please ensure the Ollama worker venv is configured.'')"
proof -
  have eq: "generate_answer h query docs r =
      Inr ((live_answer r, format_sources docs), h,
           [Request (ollama_python h) (model h) ''chat'' system_prompt
              (user_prompt context query) ''0.7'' ''500''])"
    using assms by (simp add: generate_answer_def)
  show ?thesis
    using eq live_answer_nonempty [of r] live_answer_undecodable live_answer_silent
      live_answer_raised
    by auto
qed

theorem live_generation_returns_string_witness:
  "ollama_available
     \<lparr>model = ''llama3.1:8b'', ollama_error_message = [], ollama_python = ''python'',
      ollama_available = True\<rparr> \<and>
   (\<exists>context.
      create_context
        [\<lparr>doc_text = ''first'',
          metadata = \<lparr>document = ''a.pdf'', page = Some 2, chunk_id = ''a.pdf_page2_chunk0'',
                      source_type = ''pdf''\<rparr>\<rparr>] = Inr context) \<and>
   (\<exists>tr.
      generate_answer
        \<lparr>model = ''llama3.1:8b'', ollama_error_message = [], ollama_python = ''python'',
         ollama_available = True\<rparr>
        ''What is on page two?''
        [\<lparr>doc_text = ''first'',
          metadata = \<lparr>document = ''a.pdf'', page = Some 2, chunk_id = ''a.pdf_page2_chunk0'',
                      source_type = ''pdf''\<rparr>\<rparr>]
        (Raised ''timed out after 60 seconds'') =
      Inr ((''Error generating response: timed out after 60 seconds'' @
            ''\<newline>Please ensure the Ollama worker venv is configured.'',
            [\<lparr>src_document = ''a.pdf'', src_page = IntVal 2, src_text = ''first''\<rparr>]),
           \<lparr>model = ''llama3.1:8b'', ollama_error_message = [], ollama_python = ''python'',
            ollama_available = True\<rparr>, tr))"
proof -
  let ?h = "\<lparr>model = ''llama3.1:8b'', ollama_error_message = [], ollama_python = ''python'',
             ollama_available = True\<rparr>"
  let ?docs = "[\<lparr>doc_text = ''first'',
          metadata = \<lparr>document = ''a.pdf'', page = Some 2, chunk_id = ''a.pdf_page2_chunk0'',
                      source_type = ''pdf''\<rparr>\<rparr>]"
  let ?r = "Raised ''timed out after 60 seconds''"
  have av: "ollama_available ?h" by simp
  obtain ctx where cc: "create_context ?docs = Inr ctx"
    by (simp add: create_context_def)
  have "\<exists>answer.
      generate_answer ?h ''What is on page two?'' ?docs ?r =
        Inr ((answer, format_sources ?docs), ?h,
             [Request (ollama_python ?h) (model ?h) ''chat'' system_prompt
                (user_prompt ctx ''What is on page two?'') ''0.7'' ''500'']) \<and>
      answer \<noteq> [] \<and>
      (\<forall>out err. ?r = Completed out err None \<longrightarrow> out \<noteq> [] \<longrightarrow> strip out \<noteq> [] \<longrightarrow>
         answer = strip out) \<and>
      (\<forall>dec. ?r = Completed [] [] dec \<longrightarrow> answer = ''No response from Ollama worker.'') \<and>
      (\<forall>e. ?r = Raised e \<longrightarrow>
         answer = ''Error generating response: '' @ e @
                  ''\<newline>Please ensure the Ollama worker venv is configured.'')"
    by (rule live_generation_returns_string [OF av cc])
  then obtain answer tr where
    eq: "generate_answer ?h ''What is on page two?'' ?docs ?r =
           Inr ((answer, format_sources ?docs), ?h, tr)"
    and ans: "\<forall>e. ?r = Raised e \<longrightarrow>
         answer = ''Error generating response: '' @ e @
                  ''\<newline>Please ensure the Ollama worker venv is configured.''"
    by (elim exE conjE) (rule that)
  from ans have ans': "answer = ''Error generating response: '' @ ''timed out after 60 seconds'' @
                  ''\<newline>Please ensure the Ollama worker venv is configured.''"
    by (rule allE) (erule impE, rule refl, assumption)
  have fs: "format_sources ?docs =
      [\<lparr>src_document = ''a.pdf'', src_page = IntVal 2, src_text = ''first''\<rparr>]"
    by simp
  have "\<exists>tr. generate_answer ?h ''What is on page two?'' ?docs ?r =
      Inr ((''Error generating response: timed out after 60 seconds'' @
            ''\<newline>Please ensure the Ollama worker venv is configured.'',
            [\<lparr>src_document = ''a.pdf'', src_page = IntVal 2, src_text = ''first''\<rparr>]), ?h, tr)"
    using eq unfolding ans' fs by (intro exI) simp
  moreover have "\<exists>c. create_context ?docs = Inr c" using cc by (rule exI)
  ultimately show ?thesis using av by (intro conjI)
qed

text \<open>
  The output is not used verbatim: the worker's output \<open>hello\<close> followed by a line break
  cannot be decoded, and the answer is \<open>hello\<close> without the line break, not the output
  itself.
\<close>

theorem raw_stdout_verbatim_counterexample:
  "generate_answer
     \<lparr>model = ''llama3.1:8b'', ollama_error_message = [], ollama_python = ''python'',
      ollama_available = True\<rparr>
     ''What is DocuMind?'' [] (Completed ''hello\<newline>'' [] None) =
   Inr ((''hello'', []),
        \<lparr>model = ''llama3.1:8b'', ollama_error_message = [], ollama_python = ''python'',
         ollama_available = True\<rparr>,
        [Request ''python'' ''llama3.1:8b'' ''chat'' system_prompt
           (user_prompt [] ''What is DocuMind?'') ''0.7'' ''500'']) \<and>
   ''hello'' \<noteq> ''hello\<newline>''"
  by (simp add: generate_answer_def create_context_def live_answer_def Let_def
      strip_def lstrip_def rstrip_def is_space_def)

section \<open>A query that retrieves nothing\<close>

text \<open>
  C5. When the search returns no document, the query step appends the user's message and an
  assistant message whose content is the fixed sentence and whose source list is empty; the
  handler is untouched, no worker is launched and \<open>generate_answer\<close> is not called.
\<close>

theorem empty_search_fixed_answer:
  "handle_query h chat_history query [] r =
     Inr (chat_history @
            [\<lparr>role = ''user'', content = query, msg_sources = None\<rparr>,
             \<lparr>role = ''assistant'', content = no_information_response, msg_sources = Some []\<rparr>],
          h, [], [])"
  by (simp add: handle_query_def)

section \<open>Chunk identifiers\<close>

lemma page_chunks_enumerate:
  "page_chunks fn ext pg i cs = map (\<lambda>(j, c). make_chunk fn ext pg j c) (enumerate i cs)"
  by (induction cs arbitrary: i) simp_all

lemma all_chunks_concat:
  "all_chunks split_text fn ext pds =
     concat (map (\<lambda>pd. map (\<lambda>(j, c). make_chunk fn ext (pd_page pd) j c)
                          (enumerate 0 (split_text (pd_text pd)))) pds)"
  by (induction pds) (simp_all add: page_chunks_enumerate)

lemma pdf_pages_from: "pd \<in> set (pdf_pages n tot ts) \<Longrightarrow> int n \<le> pd_page pd"
proof (induction ts arbitrary: n)
  case Nil
  then show ?case by simp
next
  case (Cons t ts)
  from Cons.prems have "pd_page pd = int n \<or> pd \<in> set (pdf_pages (Suc n) tot ts)"
    by (auto split: if_splits)
  then show ?case
  proof
    assume "pd_page pd = int n"
    then show ?thesis by simp
  next
    assume "pd \<in> set (pdf_pages (Suc n) tot ts)"
    from Cons.IH [OF this] show ?thesis by simp
  qed
qed

lemma extract_pages_one_based:
  assumes "extract_pages ext f = Inr pds" and "pd \<in> set pds"
  shows "1 \<le> pd_page pd"
proof -
  consider (pdf) "extract_text_from_pdf f = Inr pds"
    | (docx) "extract_text_from_docx f = Inr pds"
    | (plain) "extract_text_from_txt f = Inr pds"
    using assms(1) by (auto simp: extract_pages_def split: if_splits)
  then show ?thesis
  proof cases
    case pdf
    then obtain pages where "pds = pdf_pages 1 (length pages) pages"
      by (auto simp: extract_text_from_pdf_def split: sum.splits)
    with assms(2) pdf_pages_from [of pd 1 "length pages" pages] show ?thesis by simp
  next
    case docx
    with assms(2) show ?thesis
      by (auto simp: extract_text_from_docx_def split: sum.splits)
  next
    case plain
    with assms(2) show ?thesis
      by (auto simp: extract_text_from_txt_def split: sum.splits)
  qed
qed

text \<open>
  C8. When \<open>process_document\<close> returns, the chunks are, page by page in the order of the
  extracted pages, the pieces the splitter gives for the page's text, numbered from 0 on
  every page; the \<open>chunk_id\<close> of piece \<open>chunk_idx\<close> of the page numbered \<open>page_num\<close> is the
  file name followed by \<open>_page\<close>, the decimal page number, \<open>_chunk\<close> and the decimal
  index. Every extracted page has a number of at least 1. So each chunk's identifier is
  determined by the file name, the page number and the chunk index.
\<close>

theorem chunk_id_format:
  assumes "process_document split_text f filename = Inr chunks"
  shows "\<exists>pages_data.
           extract_pages (lower (splitext_ext filename)) f = Inr pages_data \<and>
           (\<forall>pd \<in> set pages_data. 1 \<le> pd_page pd) \<and>
           chunks =
             concat (map (\<lambda>pd. map (\<lambda>(chunk_idx, c).
                                        \<lparr>doc_text = c,
                                         metadata =
                                           \<lparr>document = filename, page = Some (pd_page pd),
                                            chunk_id = filename @ ''_page'' @ str_int (pd_page pd) @
                                                       ''_chunk'' @ str_nat chunk_idx,
                                            source_type = drop 1 (lower (splitext_ext filename))\<rparr>\<rparr>)
                                   (enumerate 0 (split_text (pd_text pd))))
                      pages_data) \<and>
           (\<forall>c \<in> set chunks.
              \<exists>page_num chunk_idx.
                1 \<le> page_num \<and> page (metadata c) = Some page_num \<and>
                chunk_id (metadata c) =
                  filename @ ''_page'' @ str_int page_num @ ''_chunk'' @ str_nat chunk_idx)"
proof -
  let ?ext = "lower (splitext_ext filename)"
  from assms obtain pages_data where
    ex: "extract_pages ?ext f = Inr pages_data"
    and ch: "chunks = all_chunks split_text filename ?ext pages_data"
    by (auto simp: process_document_def Let_def split: sum.splits)
  have one: "\<forall>pd \<in> set pages_data. 1 \<le> pd_page pd"
    using extract_pages_one_based [OF ex] by blast
  have shape: "chunks =
      concat (map (\<lambda>pd. map (\<lambda>(chunk_idx, c). make_chunk filename ?ext (pd_page pd) chunk_idx c)
                            (enumerate 0 (split_text (pd_text pd))))
               pages_data)"
    unfolding ch by (rule all_chunks_concat)
  have each: "\<forall>c \<in> set chunks.
      \<exists>page_num chunk_idx.
        1 \<le> page_num \<and> page (metadata c) = Some page_num \<and>
        chunk_id (metadata c) =
          filename @ ''_page'' @ str_int page_num @ ''_chunk'' @ str_nat chunk_idx"
  proof
    fix c
    assume "c \<in> set chunks"
    with shape obtain pd j t where
      pd: "pd \<in> set pages_data" and c: "c = make_chunk filename ?ext (pd_page pd) j t"
      by auto
    from one pd have "1 \<le> pd_page pd" by blast
    with c show "\<exists>page_num chunk_idx.
        1 \<le> page_num \<and> page (metadata c) = Some page_num \<and>
        chunk_id (metadata c) =
          filename @ ''_page'' @ str_int page_num @ ''_chunk'' @ str_nat chunk_idx"
      by (auto simp: make_chunk_def)
  qed
  from shape have shape': "chunks =
      concat (map (\<lambda>pd. map (\<lambda>(chunk_idx, c).
                                \<lparr>doc_text = c,
                                 metadata =
                                   \<lparr>document = filename, page = Some (pd_page pd),
                                    chunk_id = filename @ ''_page'' @ str_int (pd_page pd) @
                                               ''_chunk'' @ str_nat chunk_idx,
                                    source_type = drop 1 ?ext\<rparr>\<rparr>)
                            (enumerate 0 (split_text (pd_text pd))))
               pages_data)"
    by (simp add: make_chunk_def)
  from ex one shape' each show ?thesis by blast
qed

theorem chunk_id_format_witness:
  "process_document (\<lambda>t. [take 5 t, drop 5 t])
     \<lparr>pdf_pages_text = Inr [''page one'', ''  '', ''page three''],
      docx_paragraphs = Inl ''not a DOCX file'', txt_content = Inl ''not UTF-8''\<rparr>
     ''Notes.PDF'' =
   Inr [\<lparr>doc_text = ''page '',
         metadata = \<lparr>document = ''Notes.PDF'', page = Some 1,
                     chunk_id = ''Notes.PDF_page1_chunk0'', source_type = ''pdf''\<rparr>\<rparr>,
        \<lparr>doc_text = ''one'',
         metadata = \<lparr>document = ''Notes.PDF'', page = Some 1,
                     chunk_id = ''Notes.PDF_page1_chunk1'', source_type = ''pdf''\<rparr>\<rparr>,
        \<lparr>doc_text = ''page '',
         metadata = \<lparr>document = ''Notes.PDF'', page = Some 3,
                     chunk_id = ''Notes.PDF_page3_chunk0'', source_type = ''pdf''\<rparr>\<rparr>,
        \<lparr>doc_text = ''three'',
         metadata = \<lparr>document = ''Notes.PDF'', page = Some 3,
                     chunk_id = ''Notes.PDF_page3_chunk1'', source_type = ''pdf''\<rparr>\<rparr>] \<and>
   (\<exists>pages_data.
      extract_pages (lower (splitext_ext ''Notes.PDF''))
        \<lparr>pdf_pages_text = Inr [''page one'', ''  '', ''page three''],
         docx_paragraphs = Inl ''not a DOCX file'', txt_content = Inl ''not UTF-8''\<rparr> =
        Inr pages_data \<and>
      (\<forall>pd \<in> set pages_data. 1 \<le> pd_page pd))"
proof -
  let ?f = "\<lparr>pdf_pages_text = Inr [''page one'', ''  '', ''page three''],
             docx_paragraphs = Inl ''not a DOCX file'', txt_content = Inl ''not UTF-8''\<rparr>"
  have run: "process_document (\<lambda>t. [take 5 t, drop 5 t])
     \<lparr>pdf_pages_text = Inr [''page one'', ''  '', ''page three''],
      docx_paragraphs = Inl ''not a DOCX file'', txt_content = Inl ''not UTF-8''\<rparr>
     ''Notes.PDF'' =
   Inr [\<lparr>doc_text = ''page '',
         metadata = \<lparr>document = ''Notes.PDF'', page = Some 1,
                     chunk_id = ''Notes.PDF_page1_chunk0'', source_type = ''pdf''\<rparr>\<rparr>,
        \<lparr>doc_text = ''one'',
         metadata = \<lparr>document = ''Notes.PDF'', page = Some 1,
                     chunk_id = ''Notes.PDF_page1_chunk1'', source_type = ''pdf''\<rparr>\<rparr>,
        \<lparr>doc_text = ''page '',
         metadata = \<lparr>document = ''Notes.PDF'', page = Some 3,
                     chunk_id = ''Notes.PDF_page3_chunk0'', source_type = ''pdf''\<rparr>\<rparr>,
        \<lparr>doc_text = ''three'',
         metadata = \<lparr>document = ''Notes.PDF'', page = Some 3,
                     chunk_id = ''Notes.PDF_page3_chunk1'', source_type = ''pdf''\<rparr>\<rparr>]"
    by code_simp
  from chunk_id_format [OF run]
  have "\<exists>pages_data.
      extract_pages (lower (splitext_ext ''Notes.PDF'')) ?f = Inr pages_data \<and>
      (\<forall>pd \<in> set pages_data. 1 \<le> pd_page pd)"
    by (elim exE conjE) (intro exI conjI, assumption+)
  with run show ?thesis by (intro conjI)
qed

section \<open>Opening the store\<close>

lemma open_client_first: "first_open w = Opens \<Longrightarrow> open_client w now = Inr (db_path, [])"
  by (simp add: open_client_def)

lemma open_client_second:
  "first_open w \<noteq> Opens \<Longrightarrow> second_open w = Opens \<Longrightarrow>
     open_client w now = Inr (db_path, [Rmtree db_path])"
  by (cases "first_open w") (simp_all add: open_client_def)

lemma open_client_third:
  "first_open w \<noteq> Opens \<Longrightarrow> second_open w = FailsInconsistentHash \<Longrightarrow>
     makedirs_error w = None \<Longrightarrow> third_open w = Opens \<Longrightarrow>
     open_client w now = Inr (fresh_path now, [Rmtree db_path, Makedirs (fresh_path now)])"
  by (cases "first_open w") (simp_all add: open_client_def open_fresh_def)

lemma str_int_now: "str_int 1700000000 = ''1700000000''"
  by (simp add: str_int_def str_nat.simps digit_char_def)

text \<open>
  C7. The chain is not followed to its end on every path. When the first call raises
  \<open>InconsistentHashError\<close> and the call after the deletion raises another exception, that
  exception leaves the constructor although a client at the fresh path would open; when the
  first call raised another exception, the same second failure does lead to the fresh path.
\<close>

theorem reopen_failure_after_hash_error_propagates:
  "open_client
     \<lparr>first_open = FailsInconsistentHash, second_open = Fails ''database is locked'',
      makedirs_error = None, third_open = Opens\<rparr> 1700000000 =
     Inl (Exception ''database is locked'') \<and>
   open_client
     \<lparr>first_open = Fails ''unable to open database file'',
      second_open = Fails ''database is locked'',
      makedirs_error = None, third_open = Opens\<rparr> 1700000000 =
     Inr (''./chroma_db_1700000000'',
          [Rmtree ''./chroma_db'', Makedirs ''./chroma_db_1700000000''])"
  by (simp add: open_client_def open_fresh_def fresh_path_def db_path_def str_int_def
      str_nat.simps digit_char_def)

section \<open>The configured separators\<close>

text \<open>
  C1. The separator list the splitter is configured with holds neither the paragraph break
  (two line feeds) nor the line break (one line feed): it holds the character sequences
  backslash-n-backslash-n and backslash-n. Of the configured separators only the space and
  the empty string occur in the example text, so no split of that text can be made at its
  paragraph break.
\<close>

theorem configured_separators_miss_line_breaks:
  "separators (DocumentProcessor_init 20 5) =
     [[CHR 0x5C, CHR ''n'', CHR 0x5C, CHR ''n''], [CHR 0x5C, CHR ''n''], '' '', []] \<and>
   ''\<newline>\<newline>'' \<notin> set (separators (DocumentProcessor_init 20 5)) \<and>
   ''\<newline>'' \<notin> set (separators (DocumentProcessor_init 20 5)) \<and>
   filter (\<lambda>sep. occurs_in sep
                    ''Paragraph one.\<newline>\<newline>Paragraph two is longer than chunk size...'')
     (separators (DocumentProcessor_init 20 5)) = ['' '', []]"
  by code_simp

section \<open>Adding and querying\<close>





lemma format_rows_map:
  "format_rows (map f xs) (map g xs) (map h xs) =
     Inr (map (\<lambda>x. \<lparr>doc_text = f x, metadata = g x, distance = h x\<rparr>) xs)"
  by (induction xs) simp_all

lemma search_similar_eq:
  "search_similar encode dist vs query k =
     Inr (map (\<lambda>e. \<lparr>doc_text = entry_document e, metadata = entry_metadata e,
                     distance = dist (encode query) (embedding e)\<rparr>)
            (nearest dist (collection vs) (encode query) k))"
proof (cases "nearest dist (collection vs) (encode query) k = []")
  case True
  then show ?thesis
    by (simp add: search_similar_def generate_embeddings_def collection_query_def
        format_results_def)
next
  case False
  then show ?thesis
    by (simp add: search_similar_def generate_embeddings_def collection_query_def
        format_results_def format_rows_map)
qed

text \<open>
  C6. On an index of fewer than \<open>k\<close> entries \<open>search_similar\<close> does not raise; it returns
  one result for every entry of the index, each with the entry's text, metadata and
  distance to the embedded query, in ascending order of distance. On an empty index the
  result is the empty list.
\<close>

theorem query_fewer_than_k:
  assumes "length (collection vs) < k"
  shows "\<exists>rs. search_similar encode dist vs query k = Inr rs \<and>
              length rs = length (collection vs) \<and>
              sorted (map distance rs) \<and>
              rs = map (\<lambda>e. \<lparr>doc_text = entry_document e, metadata = entry_metadata e,
                              distance = dist (encode query) (embedding e)\<rparr>)
                     (sort_key (\<lambda>e. dist (encode query) (embedding e)) (collection vs)) \<and>
              (collection vs = [] \<longrightarrow> rs = [])"
proof -
  let ?key = "\<lambda>e. dist (encode query) (embedding e)"
  let ?row = "\<lambda>e. \<lparr>doc_text = entry_document e, metadata = entry_metadata e, distance = ?key e\<rparr>"
  have near: "nearest dist (collection vs) (encode query) k = sort_key ?key (collection vs)"
    using assms by (simp add: nearest_def)
  have eq: "search_similar encode dist vs query k = Inr (map ?row (sort_key ?key (collection vs)))"
    unfolding search_similar_eq near ..
  have "map distance (map ?row (sort_key ?key (collection vs))) =
      map ?key (sort_key ?key (collection vs))"
    by simp
  then have srt: "sorted (map distance (map ?row (sort_key ?key (collection vs))))"
    by (simp only: sorted_sort_key)
  have len: "length (map ?row (sort_key ?key (collection vs))) = length (collection vs)"
    by simp
  have emp: "collection vs = [] \<longrightarrow> map ?row (sort_key ?key (collection vs)) = []"
    by simp
  from eq srt len emp show ?thesis by blast
qed


theorem query_fewer_than_k_witness:
  "length (collection
      \<lparr>collection_name = ''documind_collection'',
       collection =
         [\<lparr>entry_id = ''a.txt_page1_chunk0'', embedding = (10::nat), entry_document = ''far'',
           entry_metadata = \<lparr>document = ''a.txt'', page = Some 1,
                              chunk_id = ''a.txt_page1_chunk0'', source_type = ''txt''\<rparr>\<rparr>,
          \<lparr>entry_id = ''a.txt_page1_chunk1'', embedding = 4, entry_document = ''near'',
           entry_metadata = \<lparr>document = ''a.txt'', page = Some 1,
                              chunk_id = ''a.txt_page1_chunk1'', source_type = ''txt''\<rparr>\<rparr>]\<rparr>) < 4 \<and>
   search_similar length (\<lambda>a b. if a \<le> b then b - a else a - b)
     \<lparr>collection_name = ''documind_collection'',
      collection =
        [\<lparr>entry_id = ''a.txt_page1_chunk0'', embedding = (10::nat), entry_document = ''far'',
          entry_metadata = \<lparr>document = ''a.txt'', page = Some 1,
                             chunk_id = ''a.txt_page1_chunk0'', source_type = ''txt''\<rparr>\<rparr>,
         \<lparr>entry_id = ''a.txt_page1_chunk1'', embedding = 4, entry_document = ''near'',
          entry_metadata = \<lparr>document = ''a.txt'', page = Some 1,
                             chunk_id = ''a.txt_page1_chunk1'', source_type = ''txt''\<rparr>\<rparr>]\<rparr>
     ''abc'' 4 =
     Inr [\<lparr>doc_text = ''near'',
           metadata = \<lparr>document = ''a.txt'', page = Some 1, chunk_id = ''a.txt_page1_chunk1'',
                       source_type = ''txt''\<rparr>,
           distance = 1\<rparr>,
          \<lparr>doc_text = ''far'',
           metadata = \<lparr>document = ''a.txt'', page = Some 1, chunk_id = ''a.txt_page1_chunk0'',
                       source_type = ''txt''\<rparr>,
           distance = 7\<rparr>]"
proof -
  let ?vs = "\<lparr>collection_name = ''documind_collection'',
      collection =
        [\<lparr>entry_id = ''a.txt_page1_chunk0'', embedding = (10::nat), entry_document = ''far'',
          entry_metadata = \<lparr>document = ''a.txt'', page = Some 1,
                             chunk_id = ''a.txt_page1_chunk0'', source_type = ''txt''\<rparr>\<rparr>,
         \<lparr>entry_id = ''a.txt_page1_chunk1'', embedding = 4, entry_document = ''near'',
          entry_metadata = \<lparr>document = ''a.txt'', page = Some 1,
                             chunk_id = ''a.txt_page1_chunk1'', source_type = ''txt''\<rparr>\<rparr>]\<rparr>"
  let ?dist = "\<lambda>a b::nat. if a \<le> b then b - a else a - b"
  have few: "length (collection ?vs) < 4" by simp
  from query_fewer_than_k [OF few, of length ?dist "''abc''"]
  obtain rs where
    eq: "search_similar length ?dist ?vs ''abc'' 4 = Inr rs"
    and rs: "rs = map (\<lambda>e. \<lparr>doc_text = entry_document e, metadata = entry_metadata e,
                              distance = ?dist (length ''abc'') (embedding e)\<rparr>)
                    (sort_key (\<lambda>e. ?dist (length ''abc'') (embedding e)) (collection ?vs))"
    by (elim exE conjE)
  from rs have "rs =
      [\<lparr>doc_text = ''near'',
        metadata = \<lparr>document = ''a.txt'', page = Some 1, chunk_id = ''a.txt_page1_chunk1'',
                    source_type = ''txt''\<rparr>,
        distance = 1\<rparr>,
       \<lparr>doc_text = ''far'',
        metadata = \<lparr>document = ''a.txt'', page = Some 1, chunk_id = ''a.txt_page1_chunk0'',
                    source_type = ''txt''\<rparr>,
        distance = 7\<rparr>]"
    by simp
  with eq few show ?thesis by simp
qed

end
